theory Spec2Isabelle
  imports Main
begin

section \<open>The Tavily search relay (travily_server.py)\<close>

text \<open>
  The server is one Python module: a registry \<open>tools\<close> of four tools, a helper
  \<open>_tavily_base_search\<close> that adds the API key to a payload and posts it, four
  functions that build a payload and hand it to the helper, and the Flask endpoint
  \<open>handle_tool_call\<close> that looks a tool up by name and calls its function with the
  caller's parameters as keyword arguments.

  The embedding keeps the source's names (\<open>_tavily_base_search\<close> loses its leading
  underscore). The environment and the remote API are arguments of the functions. Every
  function returns, next to its value, the trace of what it did: which functions of the
  module were entered and what was posted, in order. "No network call" is the statement
  that the trace holds no post. An exception that leaves a function is a value
  \<open>Inl e\<close>, and it travels up through every caller that does not catch it.
\<close>

subsection \<open>Python values that come out of JSON\<close>

text \<open>
  \<open>request.get_json()\<close> and \<open>response.json()\<close> yield \<open>None\<close>, a bool, an int, a
  float, a str, a list or a dict with string keys. The first five are hashable and are
  grouped as \<open>atom\<close>; a list or dict is not. A dict is an association list in
  insertion order, read by \<open>map_of\<close>; the dicts of Python are the lists with distinct
  keys, and nothing below needs that restriction. A float is kept as the text that
  \<open>str\<close> gives for it: the server only formats or forwards one.
\<close>

datatype atom = ANull | ABool bool | AInt int | AFloat string | AStr string

datatype json = Atom atom | Arr "json list" | Dict "(string \<times> json) list"

type_synonym dict = "(string \<times> json) list"

abbreviation JNull :: json where "JNull \<equiv> Atom ANull"
abbreviation JBool :: "bool \<Rightarrow> json" where "JBool b \<equiv> Atom (ABool b)"
abbreviation JInt :: "int \<Rightarrow> json" where "JInt i \<equiv> Atom (AInt i)"
abbreviation JStr :: "string \<Rightarrow> json" where "JStr s \<equiv> Atom (AStr s)"

text \<open>\<open>quoted s\<close> is \<open>s\<close> between two apostrophes, as the f-strings of the source write it.\<close>

definition quoted :: "string \<Rightarrow> string" where
  "quoted s = CHR 0x27 # s @ [CHR 0x27]"

fun str_nat :: "nat \<Rightarrow> string" where
  "str_nat n =
     (if n < 10 then [''0123456789'' ! n]
      else str_nat (n div 10) @ [''0123456789'' ! (n mod 10)])"

declare str_nat.simps [simp del]

definition str_int :: "int \<Rightarrow> string" where
  "str_int i = (if i < 0 then ''-'' @ str_nat (nat (- i)) else str_nat (nat i))"

text \<open>\<open>str(x)\<close>, which is what \<open>f"{x}"\<close> inserts, for a hashable value.\<close>

fun py_str :: "atom \<Rightarrow> string" where
  "py_str ANull = ''None''"
| "py_str (ABool b) = (if b then ''True'' else ''False'')"
| "py_str (AInt i) = str_int i"
| "py_str (AFloat r) = r"
| "py_str (AStr s) = s"

text \<open>\<open>type(x).__name__\<close>, as the interpreter's error messages print it.\<close>

fun type_name :: "json \<Rightarrow> string" where
  "type_name (Atom ANull) = ''NoneType''"
| "type_name (Atom (ABool b)) = ''bool''"
| "type_name (Atom (AInt i)) = ''int''"
| "type_name (Atom (AFloat r)) = ''float''"
| "type_name (Atom (AStr s)) = ''str''"
| "type_name (Arr xs) = ''list''"
| "type_name (Dict d) = ''dict''"

text \<open>\<open>d.get(k, default)\<close> and \<open>d[k] = v\<close> (an existing key keeps its place).\<close>

definition dict_get :: "dict \<Rightarrow> string \<Rightarrow> json \<Rightarrow> json" where
  "dict_get d k dflt = (case map_of d k of None \<Rightarrow> dflt | Some v \<Rightarrow> v)"

fun dict_set :: "dict \<Rightarrow> string \<Rightarrow> json \<Rightarrow> dict" where
  "dict_set [] k v = [(k, v)]"
| "dict_set ((k', v') # d) k v =
     (if k' = k then (k, v) # d else (k', v') # dict_set d k v)"

text \<open>
  The exceptions that can leave a function of the module, each with its message.
  \<open>ValueError\<close> and \<open>RecursionError\<close> are what the decoding of a response body
  can raise besides a decode error (an integer of more than 4300 digits, a nesting that
  is too deep); \<open>OtherError\<close> is any other exception, with the name of its class.
\<close>

datatype py_exc =
    BadRequest
  | AttributeError string
  | TypeError string
  | KeyError string
  | ValueError string
  | RecursionError string
  | OtherError string string
  | NotModelled string

subsection \<open>The process environment and the remote API\<close>

type_synonym environ = "(string \<times> string) list"

definition os_environ_get :: "environ \<Rightarrow> string \<Rightarrow> string option" where
  "os_environ_get env name = map_of env name"

text \<open>
  What \<open>Response.json()\<close> does with the body of a response: it returns the decoded
  value; it raises \<open>requests.exceptions.JSONDecodeError\<close>, a \<open>RequestException\<close>,
  when the body is not JSON (kept as \<open>str(e)\<close>); or the decoder raises an exception
  that requests does not wrap, such as the \<open>ValueError\<close> of Python 3.11 for an
  integer of more than 4300 digits.
\<close>

datatype json_outcome = Decoded json | JSONDecodeError string | JsonRaised py_exc

text \<open>
  What \<open>requests.post\<close> gives back: it raises a \<open>RequestException\<close> (connection
  error, timeout, a payload it cannot serialise), kept as \<open>str(e)\<close>; it raises
  an exception of another class; or it returns a response. Of a response the helper
  reads the status (in \<open>raise_for_status\<close>) and the body (in \<open>json()\<close>).
\<close>

record http_response =
  status_code :: nat
  reason :: string
  resp_url :: string
  resp_json :: json_outcome

datatype post_outcome = Raised string | RaisedOther py_exc | Responded http_response

type_synonym network = "string \<Rightarrow> dict \<Rightarrow> post_outcome"

text \<open>
  The events of a trace: the body of a function of the module is entered (a call whose
  arguments cannot be bound never enters it), and \<open>requests.post(url, json=payload)\<close>
  is executed.
\<close>

datatype event = Call string | Post string dict

type_synonym trace = "event list"

fun posts :: "trace \<Rightarrow> (string \<times> dict) list" where
  "posts [] = []"
| "posts (Call f # t) = posts t"
| "posts (Post url payload # t) = (url, payload) # posts t"

text \<open>
  \<open>Response.raise_for_status()\<close> of the requests library raises \<open>HTTPError\<close> (a
  \<open>RequestException\<close>) for the HTTP error codes, 400 to 599 (the comment at line 79
  names 401, 429 and 500), and returns for every other status. The result is the message
  of the exception it raises, if any. A redirect that requests follows is not seen here:
  the response is the final one.
\<close>

definition raise_for_status :: "http_response \<Rightarrow> string option" where
  "raise_for_status r =
     (if 400 \<le> status_code r \<and> status_code r < 500 then
        Some (str_nat (status_code r) @ '' Client Error: '' @ reason r @ '' for url: '' @ resp_url r)
      else if 500 \<le> status_code r \<and> status_code r < 600 then
        Some (str_nat (status_code r) @ '' Server Error: '' @ reason r @ '' for url: '' @ resp_url r)
      else None)"

text \<open>\<open>response.json()\<close> at line 82, with the three outcomes above.\<close>

definition response_json :: "http_response \<Rightarrow> json_outcome" where
  "response_json r = resp_json r"

subsection \<open>The tool registry (lines 26 to 47)\<close>

definition tools :: "(string \<times> (string \<times> string) list) list" where
  "tools =
    [(''search'',
        [(''description'', ''Performs a standard, fast search using the Tavily AI search engine. Best for general queries and recent events.''),
         (''function'', ''tavily_search'')]),
     (''deep_search'',
        [(''description'', ''Performs a comprehensive, in-depth search using the Tavily AI search engine. Slower but more thorough. Use for research or complex topics.''),
         (''function'', ''tavily_deep_search'')]),
     (''get_direct_answer'',
        [(''description'', ''Searches for a direct, conversational answer to a user's question. Use this when the user asks a direct question like 'What is...?' or 'How do I...?'.''),
         (''function'', ''tavily_get_direct_answer'')]),
     (''search_specific_domains'',
        [(''description'', ''Performs a search focused only on a specific list of domains. Provide the query and a list of websites to search within.''),
         (''function'', ''tavily_search_specific_domains'')])]"

subsection \<open>The client helper (lines 53 to 85)\<close>

definition error_result :: "string \<Rightarrow> json" where
  "error_result msg = Dict [(''error'', JStr msg)]"

definition tavily_url :: string where
  "tavily_url = ''https://api.tavily.com/search''"

text \<open>
  The \<open>try\<close> statement of lines 76 to 85. Its body returns the decoded response, or
  \<open>post\<close>, \<open>raise_for_status\<close> or \<open>json\<close> raises. The \<open>except\<close> clause
  catches a \<open>RequestException\<close> and nothing else: any other exception leaves the
  helper.
\<close>

datatype attempt = Returned json | RequestException string | Uncaught py_exc

definition try_post :: "network \<Rightarrow> string \<Rightarrow> dict \<Rightarrow> attempt" where
  "try_post net url payload =
     (case net url payload of
        Raised e \<Rightarrow> RequestException e
      | RaisedOther x \<Rightarrow> Uncaught x
      | Responded response \<Rightarrow>
          (case raise_for_status response of
             Some e \<Rightarrow> RequestException e
           | None \<Rightarrow>
               (case response_json response of
                  Decoded body \<Rightarrow> Returned body
                | JSONDecodeError e \<Rightarrow> RequestException e
                | JsonRaised x \<Rightarrow> Uncaught x)))"

text \<open>
  \<open>not api_key\<close> holds when the variable is unset (\<open>None\<close>) and when it is
  set to the empty string; both take the early return, before anything is posted.
  Otherwise \<open>payload["api_key"] = api_key\<close> overwrites or appends the field, and the
  payload is posted once.
\<close>

definition tavily_base_search ::
    "environ \<Rightarrow> network \<Rightarrow> dict \<Rightarrow> (py_exc + json) \<times> trace" where
  "tavily_base_search env net payload =
     (case os_environ_get env ''TAVILY_API_KEY'' of
        None \<Rightarrow>
          (Inr (error_result ''TAVILY_API_KEY environment variable not set.''),
           [Call ''_tavily_base_search''])
      | Some api_key \<Rightarrow>
          if api_key = [] then
            (Inr (error_result ''TAVILY_API_KEY environment variable not set.''),
             [Call ''_tavily_base_search''])
          else
            (let payload' = dict_set payload ''api_key'' (JStr api_key);
                 url = tavily_url
             in (case try_post net url payload' of
                   Returned body \<Rightarrow> Inr body
                 | RequestException e \<Rightarrow> Inr (error_result (''API request failed: '' @ e))
                 | Uncaught x \<Rightarrow> Inl x,
                 [Call ''_tavily_base_search'', Post url payload'])))"

subsection \<open>The four tool functions (lines 89 to 107)\<close>

text \<open>
  Each builds its payload and returns what the helper returns; an exception of the
  helper passes through.
\<close>

definition tavily_search ::
    "environ \<Rightarrow> network \<Rightarrow> json \<Rightarrow> (py_exc + json) \<times> trace" where
  "tavily_search env net query =
     (let payload = [(''query'', query), (''search_depth'', JStr ''basic''), (''max_results'', JInt 5)];
          (result, t) = tavily_base_search env net payload
      in (result, Call ''tavily_search'' # t))"

definition tavily_deep_search ::
    "environ \<Rightarrow> network \<Rightarrow> json \<Rightarrow> (py_exc + json) \<times> trace" where
  "tavily_deep_search env net query =
     (let payload = [(''query'', query), (''search_depth'', JStr ''advanced''), (''max_results'', JInt 8)];
          (result, t) = tavily_base_search env net payload
      in (result, Call ''tavily_deep_search'' # t))"

definition tavily_get_direct_answer ::
    "environ \<Rightarrow> network \<Rightarrow> json \<Rightarrow> (py_exc + json) \<times> trace" where
  "tavily_get_direct_answer env net query =
     (let payload = [(''query'', query), (''include_answer'', JBool True)];
          (result, t) = tavily_base_search env net payload
      in (result, Call ''tavily_get_direct_answer'' # t))"

definition tavily_search_specific_domains ::
    "environ \<Rightarrow> network \<Rightarrow> json \<Rightarrow> json \<Rightarrow> (py_exc + json) \<times> trace" where
  "tavily_search_specific_domains env net query domains =
     (let payload = [(''query'', query), (''include_domains'', domains), (''max_results'', JInt 5)];
          (result, t) = tavily_base_search env net payload
      in (result, Call ''tavily_search_specific_domains'' # t))"

subsection \<open>The module's global names\<close>

text \<open>
  \<open>globals()\<close> of the module when a request is handled: the imports, \<open>app\<close>,
  \<open>tools\<close>, the helper, the four tool functions and the two endpoints. Only a tool
  function is ever called through the registry; calling another global by name is not
  modelled, and \<open>handle_tool_call\<close> says so with \<open>NotModelled\<close> if it were asked to.
\<close>

datatype builder =
    Tavily_search
  | Tavily_deep_search
  | Tavily_get_direct_answer
  | Tavily_search_specific_domains

datatype py_global = Builder builder | OtherGlobal

definition globals :: "(string \<times> py_global) list" where
  "globals =
    [(''os'', OtherGlobal), (''json'', OtherGlobal), (''Flask'', OtherGlobal),
     (''request'', OtherGlobal), (''jsonify'', OtherGlobal), (''requests'', OtherGlobal),
     (''app'', OtherGlobal), (''tools'', OtherGlobal),
     (''_tavily_base_search'', OtherGlobal),
     (''tavily_search'', Builder Tavily_search),
     (''tavily_deep_search'', Builder Tavily_deep_search),
     (''tavily_get_direct_answer'', Builder Tavily_get_direct_answer),
     (''tavily_search_specific_domains'', Builder Tavily_search_specific_domains),
     (''get_plugin_info'', OtherGlobal), (''handle_tool_call'', OtherGlobal)]"

subsection \<open>Calling a tool function with \<open>**params\<close> (line 157)\<close>

text \<open>
  The interpreter raises \<open>TypeError\<close> when \<open>params\<close> is not a mapping, when it
  holds a keyword that is no parameter of the function (the first such key, in the
  order of the dict), and when a parameter gets no value. The annotations \<open>str\<close>
  and \<open>list\<close> of the parameters are not checked: a value of any type is bound.
  The messages are those of CPython 3.11 for the module run as a script; their wording
  changes between versions of the interpreter. When the arguments are bound the body
  runs, and the outcome of the call is the outcome of the body.
\<close>

definition not_a_mapping :: "string \<Rightarrow> json \<Rightarrow> string" where
  "not_a_mapping fname params =
     ''__main__.'' @ fname @ ''() argument after ** must be a mapping, not '' @ type_name params"

definition unexpected_keyword :: "string \<Rightarrow> string \<Rightarrow> string" where
  "unexpected_keyword fname k = fname @ ''() got an unexpected keyword argument '' @ quoted k"

definition missing_one :: "string \<Rightarrow> string \<Rightarrow> string" where
  "missing_one fname a = fname @ ''() missing 1 required positional argument: '' @ quoted a"

definition missing_two :: "string \<Rightarrow> string \<Rightarrow> string \<Rightarrow> string" where
  "missing_two fname a b =
     fname @ ''() missing 2 required positional arguments: '' @ quoted a @ '' and '' @ quoted b"

text \<open>The first key of the keyword dict that is none of the parameter names.\<close>

definition first_unexpected :: "string list \<Rightarrow> dict \<Rightarrow> string option" where
  "first_unexpected names kw =
     (case filter (\<lambda>k. k \<notin> set names) (map fst kw) of [] \<Rightarrow> None | k # _ \<Rightarrow> Some k)"

text \<open>A function \<open>def f(query)\<close> called as \<open>f(**params)\<close>.\<close>

definition call_query ::
    "string \<Rightarrow> (json \<Rightarrow> (py_exc + json) \<times> trace) \<Rightarrow> json
       \<Rightarrow> (py_exc + json) \<times> trace" where
  "call_query fname f params =
     (case params of
        Dict kw \<Rightarrow>
          (case first_unexpected [''query''] kw of
             Some k \<Rightarrow> (Inl (TypeError (unexpected_keyword fname k)), [])
           | None \<Rightarrow>
               (case map_of kw ''query'' of
                  None \<Rightarrow> (Inl (TypeError (missing_one fname ''query'')), [])
                | Some query \<Rightarrow> f query))
      | _ \<Rightarrow> (Inl (TypeError (not_a_mapping fname params)), []))"

text \<open>A function \<open>def f(query, domains)\<close> called as \<open>f(**params)\<close>.\<close>

definition call_query_domains ::
    "string \<Rightarrow> (json \<Rightarrow> json \<Rightarrow> (py_exc + json) \<times> trace) \<Rightarrow> json
       \<Rightarrow> (py_exc + json) \<times> trace" where
  "call_query_domains fname f params =
     (case params of
        Dict kw \<Rightarrow>
          (case first_unexpected [''query'', ''domains''] kw of
             Some k \<Rightarrow> (Inl (TypeError (unexpected_keyword fname k)), [])
           | None \<Rightarrow>
               (case (map_of kw ''query'', map_of kw ''domains'') of
                  (None, None) \<Rightarrow>
                    (Inl (TypeError (missing_two fname ''query'' ''domains'')), [])
                | (None, Some domains) \<Rightarrow> (Inl (TypeError (missing_one fname ''query'')), [])
                | (Some query, None) \<Rightarrow> (Inl (TypeError (missing_one fname ''domains'')), [])
                | (Some query, Some domains) \<Rightarrow> f query domains))
      | _ \<Rightarrow> (Inl (TypeError (not_a_mapping fname params)), []))"

fun call_builder ::
    "builder \<Rightarrow> environ \<Rightarrow> network \<Rightarrow> json \<Rightarrow> (py_exc + json) \<times> trace" where
  "call_builder Tavily_search env net params =
     call_query ''tavily_search'' (tavily_search env net) params"
| "call_builder Tavily_deep_search env net params =
     call_query ''tavily_deep_search'' (tavily_deep_search env net) params"
| "call_builder Tavily_get_direct_answer env net params =
     call_query ''tavily_get_direct_answer'' (tavily_get_direct_answer env net) params"
| "call_builder Tavily_search_specific_domains env net params =
     call_query_domains ''tavily_search_specific_domains''
       (tavily_search_specific_domains env net) params"

subsection \<open>The dispatch endpoint (lines 131 to 161)\<close>

text \<open>
  A request to \<open>/tools\<close>: a body that \<open>request.get_json()\<close> decodes, or one it
  refuses (not JSON), for which it raises werkzeug's \<open>BadRequest\<close>.
\<close>

datatype request = Undecodable | Body json

definition get_json :: "request \<Rightarrow> py_exc + json" where
  "get_json req = (case req of Undecodable \<Rightarrow> Inl BadRequest | Body v \<Rightarrow> Inr v)"

text \<open>A response of the handler: the status and the JSON body (\<open>jsonify\<close>).\<close>

type_synonym response = "nat \<times> json"

definition jsonify :: "json \<Rightarrow> response" where
  "jsonify v = (200, v)"

definition jsonify_status :: "json \<Rightarrow> nat \<Rightarrow> response" where
  "jsonify_status v status = (status, v)"

text \<open>
  \<open>tool_name not in tools\<close>: the keys of \<open>tools\<close> are strings, so a hashable
  value that is not a string is no key. A list or a dict is unhashable, and the
  membership test itself raises \<open>TypeError\<close>, outside the \<open>try\<close>.
\<close>

definition tools_entry :: "atom \<Rightarrow> (string \<times> string) list option" where
  "tools_entry a = (case a of AStr s \<Rightarrow> map_of tools s | _ \<Rightarrow> None)"

definition unhashable :: "json \<Rightarrow> py_exc" where
  "unhashable v = TypeError (''unhashable type: '' @ quoted (type_name v))"

text \<open>
  The \<open>try\<close> statement of lines 154 to 161 around the call: the result is relayed
  with the default status 200; a \<open>TypeError\<close>, raised by the call or inside it,
  becomes the 400 response; any other exception leaves the handler.
\<close>

definition try_call ::
    "atom \<Rightarrow> (py_exc + json) \<times> trace \<Rightarrow> (py_exc + response) \<times> trace" where
  "try_call tool_name outcome =
     (case outcome of
        (Inr result, t) \<Rightarrow> (Inr (jsonify result), t)
      | (Inl (TypeError e), t) \<Rightarrow>
          (Inr (jsonify_status
                  (error_result (''Invalid parameters for tool ''
                     @ quoted (py_str tool_name) @ '': '' @ e)) 400), t)
      | (Inl x, t) \<Rightarrow> (Inl x, t))"

text \<open>
  Lines 142 to 161 of \<open>handle_tool_call\<close>, for a hashable \<open>tool_name\<close>: the
  registry lookup, the lookup of the function in \<open>globals()\<close>, the call.
\<close>

definition dispatch ::
    "environ \<Rightarrow> network \<Rightarrow> atom \<Rightarrow> json \<Rightarrow> (py_exc + response) \<times> trace" where
  "dispatch env net tool_name params =
     (case tools_entry tool_name of
        None \<Rightarrow>
          (Inr (jsonify_status
                  (error_result (''Tool '' @ quoted (py_str tool_name) @ '' not found.'')) 404), [])
      | Some entry \<Rightarrow>
          (case map_of entry ''function'' of
             None \<Rightarrow> (Inl (KeyError (quoted ''function'')), [])
           | Some function_name \<Rightarrow>
               (case map_of globals function_name of
                  None \<Rightarrow>
                    (Inr (jsonify_status
                            (error_result (''Function implementation for ''
                               @ quoted (py_str tool_name) @ '' not found.'')) 500), [])
                | Some OtherGlobal \<Rightarrow> (Inl (NotModelled function_name), [])
                | Some (Builder function_to_call) \<Rightarrow>
                    try_call tool_name (call_builder function_to_call env net params))))"

definition handle_tool_call ::
    "environ \<Rightarrow> network \<Rightarrow> request \<Rightarrow> (py_exc + response) \<times> trace" where
  "handle_tool_call env net req =
     (case get_json req of
        Inl e \<Rightarrow> (Inl e, [])
      | Inr data \<Rightarrow>
          (case data of
             Dict d \<Rightarrow>
               (let tool_name = dict_get d ''tool'' JNull;
                    params = dict_get d ''params'' (Dict [])
                in case tool_name of
                     Atom a \<Rightarrow> dispatch env net a params
                   | _ \<Rightarrow> (Inl (unhashable tool_name), []))
           | _ \<Rightarrow>
               (Inl (AttributeError
                       (quoted (type_name data) @ '' object has no attribute '' @ quoted ''get'')),
                [])))"

subsection \<open>Sample environments and remote behaviours\<close>

text \<open>Concrete inputs on which the theorems below are evaluated.\<close>

definition env_unset :: environ where
  "env_unset = []"

definition env_empty :: environ where
  "env_empty = [(''TAVILY_API_KEY'', [])]"

definition env_key :: environ where
  "env_key = [(''TAVILY_API_KEY'', ''tvly-secret'')]"

definition net_refused :: network where
  "net_refused url payload = Raised ''Connection refused''"

definition net_results :: network where
  "net_results url payload =
     Responded \<lparr>status_code = 200, reason = ''OK'', resp_url = url,
                resp_json = Decoded (Dict [(''results'', Arr [])])\<rparr>"

definition net_500 :: network where
  "net_500 url payload =
     Responded \<lparr>status_code = 500, reason = ''Internal Server Error'', resp_url = url,
                resp_json = JSONDecodeError ''Expecting value: line 1 column 1 (char 0)''\<rparr>"

definition net_300 :: network where
  "net_300 url payload =
     Responded \<lparr>status_code = 300, reason = ''Multiple Choices'', resp_url = url,
                resp_json = Decoded (Dict [(''results'', Arr [])])\<rparr>"

text \<open>
  A remote API that answers 200 with a body holding an integer of 5000 digits: the
  decoder of Python 3.11 raises \<open>ValueError\<close>, which requests passes on.
\<close>

definition net_huge_int :: network where
  "net_huge_int url payload =
     Responded \<lparr>status_code = 200, reason = ''OK'', resp_url = url,
                resp_json = JsonRaised (ValueError
                  ''Exceeds the limit (4300 digits) for integer string conversion: value has 5000 digits; use sys.set_int_max_str_digits() to increase the limit'')\<rparr>"

text \<open>Sample requests: a well-formed search, and one that passes an \<open>api_key\<close>.\<close>

definition req_search :: request where
  "req_search = Body (Dict [(''tool'', JStr ''search''), (''params'', Dict [(''query'', JStr ''hello'')])])"

definition req_with_api_key :: request where
  "req_with_api_key = Body (Dict [(''tool'', JStr ''search''),
      (''params'', Dict [(''query'', JStr ''hello''), (''api_key'', JStr ''caller-key'')])])"

text \<open>
  Further sample requests: an unregistered tool, no \<open>tool\<close> field, a \<open>tool\<close> that
  is a list, a body that is an array, a parameter of an unknown name, a query that is a
  number.
\<close>

definition req_unknown_tool :: request where
  "req_unknown_tool = Body (Dict [(''tool'', JStr ''unknown_tool'')])"

definition req_no_tool :: request where
  "req_no_tool = Body (Dict [(''params'', Dict [(''query'', JStr ''hello'')])])"

definition req_tool_list :: request where
  "req_tool_list = Body (Dict [(''tool'', Arr [JStr ''search'']), (''params'', Dict [(''query'', JStr ''hello'')])])"

definition req_array :: request where
  "req_array = Body (Arr [JStr ''search'', JStr ''hello''])"

definition req_bogus_field :: request where
  "req_bogus_field = Body (Dict [(''tool'', JStr ''search''), (''params'', Dict [(''bogus_field'', JInt 1)])])"

definition req_query_int :: request where
  "req_query_int = Body (Dict [(''tool'', JStr ''search''), (''params'', Dict [(''query'', JInt 123)])])"

section \<open>Properties\<close>

text \<open>The defining equations, for evaluating the model on concrete inputs.\<close>

lemmas model_defs =
  handle_tool_call_def get_json_def dict_get_def dispatch_def tools_entry_def tools_def
  globals_def try_call_def jsonify_def jsonify_status_def error_result_def
  call_query_def call_query_domains_def first_unexpected_def
  unexpected_keyword_def missing_one_def missing_two_def not_a_mapping_def unhashable_def
  tavily_search_def tavily_deep_search_def tavily_get_direct_answer_def
  tavily_search_specific_domains_def tavily_base_search_def os_environ_get_def
  try_post_def raise_for_status_def response_json_def tavily_url_def quoted_def Let_def

lemmas sample_defs =
  env_unset_def env_empty_def env_key_def net_refused_def net_results_def net_500_def net_300_def
  net_huge_int_def
  req_search_def req_with_api_key_def req_unknown_tool_def req_no_tool_def req_tool_list_def
  req_array_def req_bogus_field_def req_query_int_def

subsection \<open>The client helper\<close>

lemma map_of_dict_set_same: "map_of (dict_set d k v) k = Some v"
  by (induction d) auto

lemma base_search_unset:
  "os_environ_get env ''TAVILY_API_KEY'' = None \<Longrightarrow>
   tavily_base_search env net payload =
     (Inr (Dict [(''error'', JStr ''TAVILY_API_KEY environment variable not set.'')]),
      [Call ''_tavily_base_search''])"
  by (simp add: tavily_base_search_def error_result_def)

lemma base_search_empty:
  "os_environ_get env ''TAVILY_API_KEY'' = Some [] \<Longrightarrow>
   tavily_base_search env net payload =
     (Inr (Dict [(''error'', JStr ''TAVILY_API_KEY environment variable not set.'')]),
      [Call ''_tavily_base_search''])"
  by (simp add: tavily_base_search_def error_result_def)

lemma base_search_key:
  "os_environ_get env ''TAVILY_API_KEY'' = Some key \<Longrightarrow> key \<noteq> [] \<Longrightarrow>
   tavily_base_search env net payload =
     (case try_post net tavily_url (dict_set payload ''api_key'' (JStr key)) of
        Returned body \<Rightarrow> Inr body
      | RequestException e \<Rightarrow> Inr (error_result (''API request failed: '' @ e))
      | Uncaught x \<Rightarrow> Inl x,
      [Call ''_tavily_base_search'',
       Post tavily_url (dict_set payload ''api_key'' (JStr key))])"
  by (simp add: tavily_base_search_def Let_def)

text \<open>
  C3. For every payload, \<open>_tavily_base_search\<close> run with no \<open>TAVILY_API_KEY\<close> in
  the environment returns exactly
  \<open>{"error": "TAVILY_API_KEY environment variable not set."}\<close> and posts nothing.
\<close>

theorem submit_without_credential:
  assumes "os_environ_get env ''TAVILY_API_KEY'' = None"
  shows "fst (tavily_base_search env net payload) =
           Inr (Dict [(''error'', JStr ''TAVILY_API_KEY environment variable not set.'')])
         \<and> posts (snd (tavily_base_search env net payload)) = []"
  using assms by (simp add: base_search_unset)

theorem submit_without_credential_witness:
  "os_environ_get env_unset ''TAVILY_API_KEY'' = None
   \<and> fst (tavily_base_search env_unset net_results [(''query'', JStr ''hello'')]) =
       Inr (Dict [(''error'', JStr ''TAVILY_API_KEY environment variable not set.'')])
   \<and> posts (snd (tavily_base_search env_unset net_results [(''query'', JStr ''hello'')])) = []"
proof -
  have unset: "os_environ_get env_unset ''TAVILY_API_KEY'' = None"
    by (simp add: env_unset_def os_environ_get_def)
  from submit_without_credential [OF unset, of net_results "[(''query'', JStr ''hello'')]"] unset
  show ?thesis by simp
qed

text \<open>
  C9. The check is \<open>not api_key\<close>, so a \<open>TAVILY_API_KEY\<close> set to the empty string
  is treated like a missing one: the same error result, and nothing is posted.
\<close>

theorem submit_with_empty_credential:
  assumes "os_environ_get env ''TAVILY_API_KEY'' = Some []"
  shows "fst (tavily_base_search env net payload) =
           Inr (Dict [(''error'', JStr ''TAVILY_API_KEY environment variable not set.'')])
         \<and> posts (snd (tavily_base_search env net payload)) = []"
  using assms by (simp add: base_search_empty)

theorem submit_with_empty_credential_witness:
  "os_environ_get env_empty ''TAVILY_API_KEY'' = Some []
   \<and> fst (tavily_base_search env_empty net_results [(''query'', JStr ''hello'')]) =
       Inr (Dict [(''error'', JStr ''TAVILY_API_KEY environment variable not set.'')])
   \<and> posts (snd (tavily_base_search env_empty net_results [(''query'', JStr ''hello'')])) = []"
proof -
  have empty: "os_environ_get env_empty ''TAVILY_API_KEY'' = Some []"
    by (simp add: env_empty_def os_environ_get_def)
  from submit_with_empty_credential [OF empty, of net_results "[(''query'', JStr ''hello'')]"] empty
  show ?thesis by simp
qed

subsection \<open>The structure of a call through the registry\<close>

lemma tavily_search_eq:
  "tavily_search env net q =
     (fst (tavily_base_search env net [(''query'', q), (''search_depth'', JStr ''basic''), (''max_results'', JInt 5)]),
      Call ''tavily_search'' # snd (tavily_base_search env net [(''query'', q), (''search_depth'', JStr ''basic''), (''max_results'', JInt 5)]))"
  by (simp add: tavily_search_def Let_def case_prod_beta)

lemma tavily_deep_search_eq:
  "tavily_deep_search env net q =
     (fst (tavily_base_search env net [(''query'', q), (''search_depth'', JStr ''advanced''), (''max_results'', JInt 8)]),
      Call ''tavily_deep_search'' # snd (tavily_base_search env net [(''query'', q), (''search_depth'', JStr ''advanced''), (''max_results'', JInt 8)]))"
  by (simp add: tavily_deep_search_def Let_def case_prod_beta)

lemma tavily_get_direct_answer_eq:
  "tavily_get_direct_answer env net q =
     (fst (tavily_base_search env net [(''query'', q), (''include_answer'', JBool True)]),
      Call ''tavily_get_direct_answer'' # snd (tavily_base_search env net [(''query'', q), (''include_answer'', JBool True)]))"
  by (simp add: tavily_get_direct_answer_def Let_def case_prod_beta)

lemma tavily_search_specific_domains_eq:
  "tavily_search_specific_domains env net q ds =
     (fst (tavily_base_search env net [(''query'', q), (''include_domains'', ds), (''max_results'', JInt 5)]),
      Call ''tavily_search_specific_domains'' # snd (tavily_base_search env net [(''query'', q), (''include_domains'', ds), (''max_results'', JInt 5)]))"
  by (simp add: tavily_search_specific_domains_def Let_def case_prod_beta)

text \<open>
  A call through the registry ends in a \<open>TypeError\<close> before any body is entered, or
  it enters one tool function, which runs the helper on some payload.
\<close>

lemma call_query_cases:
  assumes "\<And>q. \<exists>payload. f q = (fst (tavily_base_search env net payload), Call fname # snd (tavily_base_search env net payload))"
  shows "(\<exists>msg. call_query fname f params = (Inl (TypeError msg), []))
    \<or> (\<exists>fn payload. call_query fname f params =
          (fst (tavily_base_search env net payload), Call fn # snd (tavily_base_search env net payload)))"
proof (cases params)
  case (Dict kw)
  show ?thesis
  proof (cases "first_unexpected [''query''] kw")
    case None
    show ?thesis
    proof (cases "map_of kw ''query''")
      case N: None
      with None Dict show ?thesis by (simp add: call_query_def)
    next
      case (Some q)
      from assms [of q] obtain payload where
        "f q = (fst (tavily_base_search env net payload), Call fname # snd (tavily_base_search env net payload))"
        by blast
      with None Dict Some show ?thesis by (auto simp add: call_query_def)
    qed
  next
    case (Some k)
    with Dict show ?thesis by (simp add: call_query_def)
  qed
qed (simp_all add: call_query_def)

lemma call_query_domains_cases:
  assumes "\<And>q ds. \<exists>payload. f q ds = (fst (tavily_base_search env net payload), Call fname # snd (tavily_base_search env net payload))"
  shows "(\<exists>msg. call_query_domains fname f params = (Inl (TypeError msg), []))
    \<or> (\<exists>fn payload. call_query_domains fname f params =
          (fst (tavily_base_search env net payload), Call fn # snd (tavily_base_search env net payload)))"
proof (cases params)
  case (Dict kw)
  show ?thesis
  proof (cases "first_unexpected [''query'', ''domains''] kw")
    case None
    show ?thesis
    proof (cases "map_of kw ''query''")
      case N: None
      with None Dict show ?thesis by (cases "map_of kw ''domains''") (simp_all add: call_query_domains_def)
    next
      case (Some q)
      show ?thesis
      proof (cases "map_of kw ''domains''")
        case N: None
        with None Dict Some show ?thesis by (simp add: call_query_domains_def)
      next
        case S: (Some ds)
        from assms [of q ds] obtain payload where
          "f q ds = (fst (tavily_base_search env net payload), Call fname # snd (tavily_base_search env net payload))"
          by blast
        with None Dict Some S show ?thesis by (auto simp add: call_query_domains_def)
      qed
    qed
  next
    case (Some k)
    with Dict show ?thesis by (simp add: call_query_domains_def)
  qed
qed (simp_all add: call_query_domains_def)

lemma call_builder_cases:
  "(\<exists>msg. call_builder b env net params = (Inl (TypeError msg), []))
   \<or> (\<exists>fn payload. call_builder b env net params =
         (fst (tavily_base_search env net payload), Call fn # snd (tavily_base_search env net payload)))"
proof (cases b)
  case Tavily_search
  have "\<And>q. \<exists>payload. tavily_search env net q = (fst (tavily_base_search env net payload), Call ''tavily_search'' # snd (tavily_base_search env net payload))"
    using tavily_search_eq by blast
  from call_query_cases [of "tavily_search env net", OF this] Tavily_search show ?thesis by simp
next
  case Tavily_deep_search
  have "\<And>q. \<exists>payload. tavily_deep_search env net q = (fst (tavily_base_search env net payload), Call ''tavily_deep_search'' # snd (tavily_base_search env net payload))"
    using tavily_deep_search_eq by blast
  from call_query_cases [of "tavily_deep_search env net", OF this] Tavily_deep_search show ?thesis by simp
next
  case Tavily_get_direct_answer
  have "\<And>q. \<exists>payload. tavily_get_direct_answer env net q = (fst (tavily_base_search env net payload), Call ''tavily_get_direct_answer'' # snd (tavily_base_search env net payload))"
    using tavily_get_direct_answer_eq by blast
  from call_query_cases [of "tavily_get_direct_answer env net", OF this] Tavily_get_direct_answer show ?thesis by simp
next
  case Tavily_search_specific_domains
  have "\<And>q ds. \<exists>payload. tavily_search_specific_domains env net q ds = (fst (tavily_base_search env net payload), Call ''tavily_search_specific_domains'' # snd (tavily_base_search env net payload))"
    using tavily_search_specific_domains_eq by blast
  from call_query_domains_cases [of "tavily_search_specific_domains env net", OF this] Tavily_search_specific_domains show ?thesis by simp
qed

lemma tools_entry_Some:
  "tools_entry a = Some entry \<Longrightarrow>
   a = AStr ''search'' \<or> a = AStr ''deep_search'' \<or> a = AStr ''get_direct_answer''
   \<or> a = AStr ''search_specific_domains''"
  by (cases a) (simp_all add: tools_entry_def tools_def split: if_splits)

lemma tools_entry_None_iff: "tools_entry a = None \<longleftrightarrow> a \<notin> AStr ` fst ` set tools"
  by (cases a) (auto simp add: tools_entry_def map_of_eq_None_iff)

lemma dispatch_search:
  "dispatch env net (AStr ''search'') params = try_call (AStr ''search'') (call_builder Tavily_search env net params)"
  by (simp add: dispatch_def tools_entry_def tools_def globals_def)

lemma dispatch_deep_search:
  "dispatch env net (AStr ''deep_search'') params = try_call (AStr ''deep_search'') (call_builder Tavily_deep_search env net params)"
  by (simp add: dispatch_def tools_entry_def tools_def globals_def)

lemma dispatch_get_direct_answer:
  "dispatch env net (AStr ''get_direct_answer'') params = try_call (AStr ''get_direct_answer'') (call_builder Tavily_get_direct_answer env net params)"
  by (simp add: dispatch_def tools_entry_def tools_def globals_def)

lemma dispatch_search_specific_domains:
  "dispatch env net (AStr ''search_specific_domains'') params = try_call (AStr ''search_specific_domains'') (call_builder Tavily_search_specific_domains env net params)"
  by (simp add: dispatch_def tools_entry_def tools_def globals_def)

lemma dispatch_unregistered:
  "tools_entry a = None \<Longrightarrow>
   dispatch env net a params =
     (Inr (404, Dict [(''error'', JStr (''Tool '' @ quoted (py_str a) @ '' not found.''))]), [])"
  by (simp add: dispatch_def jsonify_status_def error_result_def)

lemma dispatch_registered:
  assumes "tools_entry a = Some entry"
  shows "\<exists>b. dispatch env net a params = try_call a (call_builder b env net params)"
  using tools_entry_Some [OF assms]
    dispatch_search dispatch_deep_search dispatch_get_direct_answer dispatch_search_specific_domains
  by blast

lemma try_call_TypeError:
  "try_call a (Inl (TypeError msg), t) =
     (Inr (400, Dict [(''error'', JStr (''Invalid parameters for tool '' @ quoted (py_str a) @ '': '' @ msg))]), t)"
  by (simp add: try_call_def jsonify_status_def error_result_def)

lemma try_call_Inr: "try_call a (Inr result, t) = (Inr (200, result), t)"
  by (simp add: try_call_def jsonify_def)

lemma snd_try_call: "snd (try_call a out) = snd out"
  by (cases out) (simp add: try_call_def split: sum.splits py_exc.splits)

lemma try_call_status:
  "fst (try_call a out) = Inr (status, body) \<Longrightarrow> status = 200 \<or> status = 400"
  by (cases out)
    (auto simp add: try_call_def jsonify_def jsonify_status_def split: sum.splits py_exc.splits)

text \<open>
  The outcomes of lines 142 to 161: the 404 response, the 400 response for arguments that
  cannot be bound, or the \<open>try\<close> statement around a tool function that ran the helper.
\<close>

lemma dispatch_cases:
  "(tools_entry a = None \<and>
      dispatch env net a params =
        (Inr (404, Dict [(''error'', JStr (''Tool '' @ quoted (py_str a) @ '' not found.''))]), []))
   \<or> (\<exists>msg. dispatch env net a params =
        (Inr (400, Dict [(''error'', JStr (''Invalid parameters for tool '' @ quoted (py_str a) @ '': '' @ msg))]), []))
   \<or> (\<exists>fn payload. dispatch env net a params =
        try_call a (fst (tavily_base_search env net payload),
                    Call fn # snd (tavily_base_search env net payload)))"
proof (cases "tools_entry a")
  case None
  then show ?thesis by (simp add: dispatch_unregistered)
next
  case (Some entry)
  from dispatch_registered [OF Some] obtain b where
    d: "dispatch env net a params = try_call a (call_builder b env net params)" by blast
  from call_builder_cases [of b env net params] show ?thesis
  proof
    assume "\<exists>msg. call_builder b env net params = (Inl (TypeError msg), [])"
    then obtain msg where "call_builder b env net params = (Inl (TypeError msg), [])" by blast
    with d have "dispatch env net a params =
        (Inr (400, Dict [(''error'', JStr (''Invalid parameters for tool '' @ quoted (py_str a) @ '': '' @ msg))]), [])"
      by (simp add: try_call_TypeError)
    then show ?thesis by blast
  next
    assume "\<exists>fn payload. call_builder b env net params =
      (fst (tavily_base_search env net payload), Call fn # snd (tavily_base_search env net payload))"
    then obtain fn payload where "call_builder b env net params =
      (fst (tavily_base_search env net payload), Call fn # snd (tavily_base_search env net payload))"
      by blast
    with d have "dispatch env net a params =
        try_call a (fst (tavily_base_search env net payload),
                    Call fn # snd (tavily_base_search env net payload))"
      by simp
    then show ?thesis by blast
  qed
qed

lemma handle_object:
  "dict_get d ''tool'' JNull = Atom a \<Longrightarrow>
   handle_tool_call env net (Body (Dict d)) = dispatch env net a (dict_get d ''params'' (Dict []))"
  by (simp add: handle_tool_call_def get_json_def Let_def)

lemma handle_cases:
  "(\<exists>e. handle_tool_call env net req = (Inl e, []))
   \<or> (\<exists>d a. req = Body (Dict d) \<and> dict_get d ''tool'' JNull = Atom a \<and>
         handle_tool_call env net req = dispatch env net a (dict_get d ''params'' (Dict [])))"
proof (cases req)
  case Undecodable
  then show ?thesis by (simp add: handle_tool_call_def get_json_def)
next
  case (Body data)
  show ?thesis
  proof (cases data)
    case (Dict d)
    show ?thesis
    proof (cases "dict_get d ''tool'' JNull")
      case (Atom a)
      with Body Dict handle_object [OF Atom] show ?thesis by simp
    qed (simp_all add: Body Dict handle_tool_call_def get_json_def Let_def)
  qed (simp_all add: Body handle_tool_call_def get_json_def)
qed

lemma base_search_posts:
  "posts (snd (tavily_base_search env net payload)) = [] \<or>
   (\<exists>key. os_environ_get env ''TAVILY_API_KEY'' = Some key \<and> key \<noteq> [] \<and>
      posts (snd (tavily_base_search env net payload)) =
        [(tavily_url, dict_set payload ''api_key'' (JStr key))])"
proof (cases "os_environ_get env ''TAVILY_API_KEY''")
  case None
  then show ?thesis by (simp add: base_search_unset)
next
  case (Some key)
  show ?thesis
  proof (cases "key = []")
    case True
    with Some show ?thesis by (simp add: base_search_empty)
  next
    case False
    with Some show ?thesis by (simp add: base_search_key)
  qed
qed

lemma base_search_no_credential:
  "os_environ_get env ''TAVILY_API_KEY'' = None \<or> os_environ_get env ''TAVILY_API_KEY'' = Some [] \<Longrightarrow>
   posts (snd (tavily_base_search env net payload)) = []"
  by (auto simp add: base_search_unset base_search_empty)

text \<open>A request that posts went through the \<open>try\<close> statement around the helper.\<close>

lemma handle_posts:
  "posts (snd (handle_tool_call env net req)) = [] \<or>
   (\<exists>a fn payload. handle_tool_call env net req =
        try_call a (fst (tavily_base_search env net payload),
                    Call fn # snd (tavily_base_search env net payload))
      \<and> posts (snd (handle_tool_call env net req)) = posts (snd (tavily_base_search env net payload)))"
proof -
  from handle_cases [of env net req] show ?thesis
  proof
    assume "\<exists>e. handle_tool_call env net req = (Inl e, [])"
    then show ?thesis by auto
  next
    assume "\<exists>d a. req = Body (Dict d) \<and> dict_get d ''tool'' JNull = Atom a \<and>
         handle_tool_call env net req = dispatch env net a (dict_get d ''params'' (Dict []))"
    then obtain d a where h: "handle_tool_call env net req = dispatch env net a (dict_get d ''params'' (Dict []))"
      by blast
    from dispatch_cases [of a env net "dict_get d ''params'' (Dict [])"]
    consider "posts (snd (handle_tool_call env net req)) = []"
      | fn payload where "handle_tool_call env net req =
          try_call a (fst (tavily_base_search env net payload),
                      Call fn # snd (tavily_base_search env net payload))"
      using h by auto
    then show ?thesis
    proof cases
      case 1
      then show ?thesis by simp
    next
      case 2
      then have "posts (snd (handle_tool_call env net req)) =
          posts (snd (tavily_base_search env net payload))"
        by (simp add: snd_try_call)
      with 2 show ?thesis by blast
    qed
  qed
qed

subsection \<open>The credential\<close>

lemma first_unexpected_Some:
  assumes "k \<in> fst ` set kw" and "k \<notin> set names"
  shows "\<exists>k'. first_unexpected names kw = Some k'"
proof -
  define xs where "xs = filter (\<lambda>k. k \<notin> set names) (map fst kw)"
  from assms have "k \<in> set xs" by (auto simp add: xs_def)
  then obtain x rest where "xs = x # rest" by (cases xs) auto
  then show ?thesis by (simp add: first_unexpected_def xs_def [symmetric])
qed

lemma call_builder_unexpected:
  assumes "k \<in> fst ` set kw" and "k \<noteq> ''query''" and "k \<noteq> ''domains''"
  shows "\<exists>msg. call_builder b env net (Dict kw) = (Inl (TypeError msg), [])"
proof -
  from assms first_unexpected_Some [of k kw "[''query'']"]
  obtain k1 where k1: "first_unexpected [''query''] kw = Some k1" by auto
  from assms first_unexpected_Some [of k kw "[''query'', ''domains'']"]
  obtain k2 where k2: "first_unexpected [''query'', ''domains''] kw = Some k2" by auto
  show ?thesis
    by (cases b) (simp_all add: call_query_def call_query_domains_def k1 k2)
qed

lemma posts_carry_credential:
  "\<forall>(url, payload) \<in> set (posts (snd (handle_tool_call env net req))).
      \<exists>key. os_environ_get env ''TAVILY_API_KEY'' = Some key \<and> key \<noteq> []
        \<and> map_of payload ''api_key'' = Some (JStr key)"
proof -
  from handle_posts [of env net req] show ?thesis
  proof
    assume "posts (snd (handle_tool_call env net req)) = []"
    then show ?thesis by simp
  next
    assume "\<exists>a fn payload. handle_tool_call env net req =
        try_call a (fst (tavily_base_search env net payload),
                    Call fn # snd (tavily_base_search env net payload))
      \<and> posts (snd (handle_tool_call env net req)) = posts (snd (tavily_base_search env net payload))"
    then obtain payload where
      p: "posts (snd (handle_tool_call env net req)) = posts (snd (tavily_base_search env net payload))"
      by blast
    from base_search_posts [of env net payload] p show ?thesis
      by (auto simp add: map_of_dict_set_same)
  qed
qed

lemma caller_api_key_rejected:
  assumes "req = Body (Dict d)" and "dict_get d ''params'' (Dict []) = Dict kw"
    and "''api_key'' \<in> fst ` set kw"
  shows "snd (handle_tool_call env net req) = []
         \<and> (\<forall>body. fst (handle_tool_call env net req) \<noteq> Inr (200, body))"
proof -
  from handle_cases [of env net req] show ?thesis
  proof
    assume "\<exists>e. handle_tool_call env net req = (Inl e, [])"
    then show ?thesis by auto
  next
    assume "\<exists>d a. req = Body (Dict d) \<and> dict_get d ''tool'' JNull = Atom a \<and>
         handle_tool_call env net req = dispatch env net a (dict_get d ''params'' (Dict []))"
    with assms obtain a where h: "handle_tool_call env net req = dispatch env net a (Dict kw)"
      by auto
    show ?thesis
    proof (cases "tools_entry a")
      case None
      with h show ?thesis by (simp add: dispatch_unregistered)
    next
      case (Some entry)
      from dispatch_registered [OF Some] obtain b where
        "dispatch env net a (Dict kw) = try_call a (call_builder b env net (Dict kw))" by blast
      moreover from call_builder_unexpected [of "''api_key''" kw b env net] assms
      obtain msg where "call_builder b env net (Dict kw) = (Inl (TypeError msg), [])" by auto
      ultimately show ?thesis using h by (simp add: try_call_TypeError)
    qed
  qed
qed

lemma no_credential_no_post:
  assumes "os_environ_get env ''TAVILY_API_KEY'' = None \<or> os_environ_get env ''TAVILY_API_KEY'' = Some []"
  shows "posts (snd (handle_tool_call env net req)) = []"
  using handle_posts [of env net req] base_search_no_credential [OF assms] by auto

text \<open>
  C2. For every request to the endpoint: each payload that is posted carries, as its
  \<open>api_key\<close>, the value of \<open>TAVILY_API_KEY\<close> of the server's environment,
  whatever the caller sent; a request whose \<open>params\<close> hold an \<open>api_key\<close> is
  turned away (no function of the module is entered, nothing is posted, the response is
  not a 200); and when the variable is unset or empty nothing is posted.
\<close>

theorem api_key_is_server_side:
  "(\<forall>(url, payload) \<in> set (posts (snd (handle_tool_call env net req))).
      \<exists>key. os_environ_get env ''TAVILY_API_KEY'' = Some key \<and> key \<noteq> []
        \<and> map_of payload ''api_key'' = Some (JStr key))
   \<and> (\<forall>d kw. req = Body (Dict d) \<and> dict_get d ''params'' (Dict []) = Dict kw
          \<and> ''api_key'' \<in> fst ` set kw \<longrightarrow>
        snd (handle_tool_call env net req) = []
        \<and> (\<forall>body. fst (handle_tool_call env net req) \<noteq> Inr (200, body)))
   \<and> (os_environ_get env ''TAVILY_API_KEY'' = None
        \<or> os_environ_get env ''TAVILY_API_KEY'' = Some [] \<longrightarrow>
      posts (snd (handle_tool_call env net req)) = [])"
  using posts_carry_credential [of env net req] caller_api_key_rejected [of req _ _ env net]
    no_credential_no_post [of env net req]
  by blast

theorem api_key_is_server_side_witness:
  "posts (snd (handle_tool_call env_key net_results req_search)) =
     [(''https://api.tavily.com/search'',
       [(''query'', JStr ''hello''), (''search_depth'', JStr ''basic''), (''max_results'', JInt 5),
        (''api_key'', JStr ''tvly-secret'')])]
   \<and> os_environ_get env_key ''TAVILY_API_KEY'' = Some ''tvly-secret''
   \<and> snd (handle_tool_call env_key net_results req_with_api_key) = []
   \<and> fst (handle_tool_call env_key net_results req_with_api_key) \<noteq> Inr (200, Dict [(''results'', Arr [])])
   \<and> os_environ_get env_unset ''TAVILY_API_KEY'' = None
   \<and> posts (snd (handle_tool_call env_unset net_results req_search)) = []"
  using api_key_is_server_side [of env_key net_results req_search]
    api_key_is_server_side [of env_key net_results req_with_api_key]
    api_key_is_server_side [of env_unset net_results req_search]
  by (simp add: model_defs sample_defs)

subsection \<open>The payloads of the four tools\<close>

lemma posts_base_search_key:
  "os_environ_get env ''TAVILY_API_KEY'' = Some key \<Longrightarrow> key \<noteq> [] \<Longrightarrow>
   posts (snd (tavily_base_search env net payload)) =
     [(tavily_url, dict_set payload ''api_key'' (JStr key))]"
  by (simp add: base_search_key)

lemma handle_search:
  "snd (handle_tool_call env net (Body (Dict [(''tool'', JStr ''search''), (''params'', Dict [(''query'', q)])]))) =
     snd (tavily_search env net q)"
  by (simp add: handle_tool_call_def get_json_def dict_get_def dispatch_search call_query_def
      first_unexpected_def snd_try_call)

lemma handle_deep_search:
  "snd (handle_tool_call env net (Body (Dict [(''tool'', JStr ''deep_search''), (''params'', Dict [(''query'', q)])]))) =
     snd (tavily_deep_search env net q)"
  by (simp add: handle_tool_call_def get_json_def dict_get_def dispatch_deep_search call_query_def
      first_unexpected_def snd_try_call)

lemma handle_get_direct_answer:
  "snd (handle_tool_call env net (Body (Dict [(''tool'', JStr ''get_direct_answer''), (''params'', Dict [(''query'', q)])]))) =
     snd (tavily_get_direct_answer env net q)"
  by (simp add: handle_tool_call_def get_json_def dict_get_def dispatch_get_direct_answer call_query_def
      first_unexpected_def snd_try_call)

lemma handle_search_specific_domains:
  "snd (handle_tool_call env net (Body (Dict [(''tool'', JStr ''search_specific_domains''),
       (''params'', Dict [(''query'', q), (''domains'', ds)])]))) =
     snd (tavily_search_specific_domains env net q ds)"
  by (simp add: handle_tool_call_def get_json_def dict_get_def dispatch_search_specific_domains
      call_query_domains_def first_unexpected_def snd_try_call)

text \<open>
  C1. Each tool function hands to the helper exactly the payload of the defaults table,
  a term of its arguments alone: \<open>query\<close> with \<open>search_depth\<close> basic and
  \<open>max_results\<close> 5 for the standard search, advanced and 8 for the deep search,
  \<open>include_answer\<close> true for the direct answer, \<open>include_domains\<close> (the
  caller's value) and \<open>max_results\<close> 5 for the domain search. With a credential in
  the environment, what is then posted is that payload with the \<open>api_key\<close> field
  appended and nothing else, also when the function is reached through the endpoint by
  its tool identifier. The query and the domains are any JSON values.
\<close>

theorem builders_payload:
  assumes "os_environ_get env ''TAVILY_API_KEY'' = Some key" and "key \<noteq> []"
  shows
   "tavily_search env net query =
      (fst (tavily_base_search env net
              [(''query'', query), (''search_depth'', JStr ''basic''), (''max_results'', JInt 5)]),
       Call ''tavily_search'' # snd (tavily_base_search env net
              [(''query'', query), (''search_depth'', JStr ''basic''), (''max_results'', JInt 5)]))
    \<and> posts (snd (tavily_search env net query)) =
        [(tavily_url, [(''query'', query), (''search_depth'', JStr ''basic''), (''max_results'', JInt 5),
                       (''api_key'', JStr key)])]
    \<and> tavily_deep_search env net query =
      (fst (tavily_base_search env net
              [(''query'', query), (''search_depth'', JStr ''advanced''), (''max_results'', JInt 8)]),
       Call ''tavily_deep_search'' # snd (tavily_base_search env net
              [(''query'', query), (''search_depth'', JStr ''advanced''), (''max_results'', JInt 8)]))
    \<and> posts (snd (tavily_deep_search env net query)) =
        [(tavily_url, [(''query'', query), (''search_depth'', JStr ''advanced''), (''max_results'', JInt 8),
                       (''api_key'', JStr key)])]
    \<and> tavily_get_direct_answer env net query =
      (fst (tavily_base_search env net [(''query'', query), (''include_answer'', JBool True)]),
       Call ''tavily_get_direct_answer'' # snd (tavily_base_search env net
              [(''query'', query), (''include_answer'', JBool True)]))
    \<and> posts (snd (tavily_get_direct_answer env net query)) =
        [(tavily_url, [(''query'', query), (''include_answer'', JBool True), (''api_key'', JStr key)])]
    \<and> tavily_search_specific_domains env net query domains =
      (fst (tavily_base_search env net
              [(''query'', query), (''include_domains'', domains), (''max_results'', JInt 5)]),
       Call ''tavily_search_specific_domains'' # snd (tavily_base_search env net
              [(''query'', query), (''include_domains'', domains), (''max_results'', JInt 5)]))
    \<and> posts (snd (tavily_search_specific_domains env net query domains)) =
        [(tavily_url, [(''query'', query), (''include_domains'', domains), (''max_results'', JInt 5),
                       (''api_key'', JStr key)])]
    \<and> posts (snd (handle_tool_call env net
          (Body (Dict [(''tool'', JStr ''search''), (''params'', Dict [(''query'', query)])])))) =
        [(tavily_url, [(''query'', query), (''search_depth'', JStr ''basic''), (''max_results'', JInt 5),
                       (''api_key'', JStr key)])]
    \<and> posts (snd (handle_tool_call env net
          (Body (Dict [(''tool'', JStr ''deep_search''), (''params'', Dict [(''query'', query)])])))) =
        [(tavily_url, [(''query'', query), (''search_depth'', JStr ''advanced''), (''max_results'', JInt 8),
                       (''api_key'', JStr key)])]
    \<and> posts (snd (handle_tool_call env net
          (Body (Dict [(''tool'', JStr ''get_direct_answer''), (''params'', Dict [(''query'', query)])])))) =
        [(tavily_url, [(''query'', query), (''include_answer'', JBool True), (''api_key'', JStr key)])]
    \<and> posts (snd (handle_tool_call env net
          (Body (Dict [(''tool'', JStr ''search_specific_domains''),
                       (''params'', Dict [(''query'', query), (''domains'', domains)])])))) =
        [(tavily_url, [(''query'', query), (''include_domains'', domains), (''max_results'', JInt 5),
                       (''api_key'', JStr key)])]"
proof -
  note k = posts_base_search_key [OF assms]
  have s: "posts (snd (tavily_search env net query)) =
        [(tavily_url, [(''query'', query), (''search_depth'', JStr ''basic''), (''max_results'', JInt 5),
                       (''api_key'', JStr key)])]"
    by (simp add: tavily_search_eq k)
  have d: "posts (snd (tavily_deep_search env net query)) =
        [(tavily_url, [(''query'', query), (''search_depth'', JStr ''advanced''), (''max_results'', JInt 8),
                       (''api_key'', JStr key)])]"
    by (simp add: tavily_deep_search_eq k)
  have g: "posts (snd (tavily_get_direct_answer env net query)) =
        [(tavily_url, [(''query'', query), (''include_answer'', JBool True), (''api_key'', JStr key)])]"
    by (simp add: tavily_get_direct_answer_eq k)
  have m: "posts (snd (tavily_search_specific_domains env net query domains)) =
        [(tavily_url, [(''query'', query), (''include_domains'', domains), (''max_results'', JInt 5),
                       (''api_key'', JStr key)])]"
    by (simp add: tavily_search_specific_domains_eq k)
  show ?thesis
    by (simp only: handle_search handle_deep_search handle_get_direct_answer
        handle_search_specific_domains s d g m
        tavily_search_eq [symmetric] tavily_deep_search_eq [symmetric]
        tavily_get_direct_answer_eq [symmetric] tavily_search_specific_domains_eq [symmetric]
        simp_thms)
qed

theorem builders_payload_witness:
  "os_environ_get env_key ''TAVILY_API_KEY'' = Some ''tvly-secret''
   \<and> posts (snd (tavily_search env_key net_results (JStr ''hello''))) =
       [(''https://api.tavily.com/search'',
         [(''query'', JStr ''hello''), (''search_depth'', JStr ''basic''), (''max_results'', JInt 5),
          (''api_key'', JStr ''tvly-secret'')])]
   \<and> posts (snd (tavily_deep_search env_key net_results (JStr ''hello''))) =
       [(''https://api.tavily.com/search'',
         [(''query'', JStr ''hello''), (''search_depth'', JStr ''advanced''), (''max_results'', JInt 8),
          (''api_key'', JStr ''tvly-secret'')])]
   \<and> posts (snd (tavily_get_direct_answer env_key net_results (JStr ''hello''))) =
       [(''https://api.tavily.com/search'',
         [(''query'', JStr ''hello''), (''include_answer'', JBool True),
          (''api_key'', JStr ''tvly-secret'')])]
   \<and> posts (snd (tavily_search_specific_domains env_key net_results (JStr ''x'')
        (Arr [JStr ''a.com'', JStr ''b.com'']))) =
       [(''https://api.tavily.com/search'',
         [(''query'', JStr ''x''), (''include_domains'', Arr [JStr ''a.com'', JStr ''b.com'']),
          (''max_results'', JInt 5), (''api_key'', JStr ''tvly-secret'')])]"
proof -
  have key: "os_environ_get env_key ''TAVILY_API_KEY'' = Some ''tvly-secret''"
    by (simp add: env_key_def os_environ_get_def)
  have ne: "''tvly-secret'' \<noteq> []" by simp
  from builders_payload [OF key ne, of net_results "JStr ''hello''" "Arr []"]
    builders_payload [OF key ne, of net_results "JStr ''x''" "Arr [JStr ''a.com'', JStr ''b.com'']"]
    key
  show ?thesis by (simp add: model_defs sample_defs)
qed

subsection \<open>Remote failures\<close>

text \<open>
  A final response with status 300 is not a 2xx response, and \<open>raise_for_status\<close>
  lets it pass: the helper returns its decoded body, not an error result. So the claim
  C4, read for every status outside 200 to 299, fails.
\<close>

theorem redirect_status_counterexample:
  "net_300 ''https://api.tavily.com/search'' [(''query'', JStr ''hello''), (''api_key'', JStr ''tvly-secret'')] =
     Responded \<lparr>status_code = 300, reason = ''Multiple Choices'',
                resp_url = ''https://api.tavily.com/search'',
                resp_json = Decoded (Dict [(''results'', Arr [])])\<rparr>
   \<and> tavily_base_search env_key net_300 [(''query'', JStr ''hello'')] =
       (Inr (Dict [(''results'', Arr [])]),
        [Call ''_tavily_base_search'',
         Post ''https://api.tavily.com/search'' [(''query'', JStr ''hello''), (''api_key'', JStr ''tvly-secret'')]])"
  by (simp add: model_defs sample_defs)

text \<open>
  For a status outside 400 to 599 the outcome is that of \<open>json()\<close>: the decoded body
  is returned, a body that is not JSON gives the error result, and any other exception
  of the decoder leaves the helper.
\<close>

lemma other_status_outcome:
  assumes "os_environ_get env ''TAVILY_API_KEY'' = Some key" and "key \<noteq> []"
    and "net tavily_url (dict_set payload ''api_key'' (JStr key)) = Responded r"
    and "status_code r < 400 \<or> 600 \<le> status_code r"
  shows "fst (tavily_base_search env net payload) =
           (case response_json r of
              Decoded body \<Rightarrow> Inr body
            | JSONDecodeError e \<Rightarrow> Inr (Dict [(''error'', JStr (''API request failed: '' @ e))])
            | JsonRaised x \<Rightarrow> Inl x)"
proof -
  from assms(4) have "raise_for_status r = None" by (auto simp add: raise_for_status_def)
  with assms(1-3) show ?thesis
    by (simp add: base_search_key try_post_def error_result_def split: json_outcome.splits)
qed

lemma raise_for_status_error:
  "400 \<le> status_code r \<Longrightarrow> status_code r < 600 \<Longrightarrow> \<exists>details. raise_for_status r = Some details"
  by (cases "status_code r < 500") (simp_all add: raise_for_status_def)

lemma try_post_failure:
  assumes "net url p = Raised e \<or> (\<exists>r. net url p = Responded r \<and> 400 \<le> status_code r \<and> status_code r < 600)"
  shows "\<exists>details. try_post net url p = RequestException details
           \<and> (net url p = Raised e \<longrightarrow> details = e)
           \<and> (\<forall>r. net url p = Responded r \<longrightarrow> raise_for_status r = Some details)"
  using assms
proof
  assume "net url p = Raised e"
  then show ?thesis by (simp add: try_post_def)
next
  assume "\<exists>r. net url p = Responded r \<and> 400 \<le> status_code r \<and> status_code r < 600"
  then obtain r where r: "net url p = Responded r" "400 \<le> status_code r" "status_code r < 600" by blast
  from raise_for_status_error [OF r(2,3)] obtain details where "raise_for_status r = Some details"
    by blast
  with r show ?thesis by (simp add: try_post_def)
qed

lemma handle_relays_post:
  assumes "os_environ_get env ''TAVILY_API_KEY'' = Some key" and "key \<noteq> []"
    and "posts (snd (handle_tool_call env net req)) = [(tavily_url, dict_set payload ''api_key'' (JStr key))]"
    and "fst (tavily_base_search env net payload) = Inr result"
  shows "fst (handle_tool_call env net req) = Inr (200, result)"
proof -
  from handle_posts [of env net req] assms(3) obtain a fn payload0 where
    f: "handle_tool_call env net req =
          try_call a (fst (tavily_base_search env net payload0),
                      Call fn # snd (tavily_base_search env net payload0))"
    and p: "posts (snd (handle_tool_call env net req)) = posts (snd (tavily_base_search env net payload0))"
    by auto
  from p assms(1-3) have "dict_set payload0 ''api_key'' (JStr key) = dict_set payload ''api_key'' (JStr key)"
    by (simp add: base_search_key)
  with assms(1,2) have "fst (tavily_base_search env net payload0) = fst (tavily_base_search env net payload)"
    by (simp add: base_search_key)
  with f assms(4) show ?thesis by (simp add: try_call_Inr)
qed

text \<open>
  C4, amended. With a credential set, when the post raises a \<open>RequestException\<close>
  (a transport error) or the response has an HTTP error status, 400 to 599, the helper
  returns \<open>{"error": "API request failed: " + details}\<close>, where the details are the
  text of the exception (for a status, the message of \<open>raise_for_status\<close>); and
  every request to the endpoint that issued this post is answered with status 200 and
  that body.
\<close>

theorem remote_failure_is_relayed:
  assumes "os_environ_get env ''TAVILY_API_KEY'' = Some key" and "key \<noteq> []"
    and "net tavily_url (dict_set payload ''api_key'' (JStr key)) = out"
    and "out = Raised e \<or> (\<exists>r. out = Responded r \<and> 400 \<le> status_code r \<and> status_code r < 600)"
  shows "\<exists>details.
           fst (tavily_base_search env net payload) =
             Inr (Dict [(''error'', JStr (''API request failed: '' @ details))])
         \<and> (out = Raised e \<longrightarrow> details = e)
         \<and> (\<forall>r. out = Responded r \<longrightarrow> raise_for_status r = Some details)
         \<and> (\<forall>req. posts (snd (handle_tool_call env net req)) =
                     [(tavily_url, dict_set payload ''api_key'' (JStr key))] \<longrightarrow>
                fst (handle_tool_call env net req) =
                  Inr (200, Dict [(''error'', JStr (''API request failed: '' @ details))]))"
proof -
  from assms(3,4) try_post_failure [of net tavily_url "dict_set payload ''api_key'' (JStr key)" e]
  obtain details where
    t: "try_post net tavily_url (dict_set payload ''api_key'' (JStr key)) = RequestException details"
    and d1: "out = Raised e \<longrightarrow> details = e"
    and d2: "\<forall>r. out = Responded r \<longrightarrow> raise_for_status r = Some details"
    by auto
  from t assms(1,2) have b: "fst (tavily_base_search env net payload) =
      Inr (Dict [(''error'', JStr (''API request failed: '' @ details))])"
    by (simp add: base_search_key error_result_def)
  have "\<forall>req. posts (snd (handle_tool_call env net req)) =
                     [(tavily_url, dict_set payload ''api_key'' (JStr key))] \<longrightarrow>
                fst (handle_tool_call env net req) =
                  Inr (200, Dict [(''error'', JStr (''API request failed: '' @ details))])"
    using handle_relays_post [OF assms(1,2) _ b] by simp
  with b d1 d2 show ?thesis by blast
qed

theorem remote_failure_is_relayed_witness:
  "os_environ_get env_key ''TAVILY_API_KEY'' = Some ''tvly-secret''
   \<and> tavily_base_search env_key net_500 [(''query'', JStr ''hello''), (''search_depth'', JStr ''basic''), (''max_results'', JInt 5)] =
       (Inr (Dict [(''error'', JStr ''API request failed: 500 Server Error: Internal Server Error for url: https://api.tavily.com/search'')]),
        [Call ''_tavily_base_search'',
         Post ''https://api.tavily.com/search''
           [(''query'', JStr ''hello''), (''search_depth'', JStr ''basic''), (''max_results'', JInt 5),
            (''api_key'', JStr ''tvly-secret'')]])
   \<and> fst (handle_tool_call env_key net_500 req_search) =
       Inr (200, Dict [(''error'', JStr ''API request failed: 500 Server Error: Internal Server Error for url: https://api.tavily.com/search'')])
   \<and> fst (tavily_base_search env_key net_refused [(''query'', JStr ''hello'')]) =
       Inr (Dict [(''error'', JStr ''API request failed: Connection refused'')])
   \<and> fst (handle_tool_call env_key net_refused req_search) =
       Inr (200, Dict [(''error'', JStr ''API request failed: Connection refused'')])"
  using
    remote_failure_is_relayed [of env_key "''tvly-secret''" net_500
      "[(''query'', JStr ''hello''), (''search_depth'', JStr ''basic''), (''max_results'', JInt 5)]"
      "net_500 tavily_url (dict_set [(''query'', JStr ''hello''), (''search_depth'', JStr ''basic''), (''max_results'', JInt 5)] ''api_key'' (JStr ''tvly-secret''))"
      "''''"]
    remote_failure_is_relayed [of env_key "''tvly-secret''" net_refused
      "[(''query'', JStr ''hello'')]"
      "Raised ''Connection refused''" "''Connection refused''"]
  by (simp add: model_defs sample_defs str_nat.simps)

subsection \<open>Parameters that do not fit\<close>

text \<open>
  What the \<open>try\<close> statement does catch, for a registered tool: \<open>params\<close> that is
  not an object, a keyword that is no parameter, a missing \<open>query\<close>. Each is a
  \<open>TypeError\<close> of the call, answered with status 400 before any function is entered.
\<close>

lemma call_builder_not_a_mapping:
  assumes "\<forall>kw. params \<noteq> Dict kw"
  shows "\<exists>msg. call_builder b env net params = (Inl (TypeError msg), [])"
  using assms by (cases b; cases params) (simp_all add: call_query_def call_query_domains_def)

lemma call_builder_missing_query:
  assumes "''query'' \<notin> fst ` set kw"
  shows "\<exists>msg. call_builder b env net (Dict kw) = (Inl (TypeError msg), [])"
proof -
  from assms have "map_of kw ''query'' = None" by (simp add: map_of_eq_None_iff)
  then show ?thesis
    by (cases b)
      (simp_all add: call_query_def call_query_domains_def split: option.splits)
qed

lemma invalid_parameters_rejected:
  assumes "dict_get d ''tool'' JNull = JStr name" and "name \<in> fst ` set tools"
    and "(\<forall>kw. dict_get d ''params'' (Dict []) \<noteq> Dict kw)
         \<or> (\<exists>kw k. dict_get d ''params'' (Dict []) = Dict kw \<and> k \<in> fst ` set kw
               \<and> k \<noteq> ''query'' \<and> k \<noteq> ''domains'')
         \<or> (\<exists>kw. dict_get d ''params'' (Dict []) = Dict kw \<and> ''query'' \<notin> fst ` set kw)"
  shows "\<exists>detail. handle_tool_call env net (Body (Dict d)) =
           (Inr (400, Dict [(''error'',
              JStr (''Invalid parameters for tool '' @ quoted name @ '': '' @ detail))]), [])"
proof -
  let ?params = "dict_get d ''params'' (Dict [])"
  from assms(2) obtain entry where "tools_entry (AStr name) = Some entry"
    using tools_entry_None_iff [of "AStr name"] by auto
  from dispatch_registered [OF this] obtain b where
    d: "dispatch env net (AStr name) ?params = try_call (AStr name) (call_builder b env net ?params)"
    by blast
  from assms(3) call_builder_not_a_mapping [of ?params b env net]
    call_builder_unexpected [of _ _ b env net] call_builder_missing_query [of _ b env net]
  obtain msg where "call_builder b env net ?params = (Inl (TypeError msg), [])" by metis
  with d handle_object [OF assms(1), of env net] show ?thesis
    by (auto simp add: try_call_TypeError)
qed

text \<open>
  C5. The annotations \<open>query: str\<close> and \<open>domains: list\<close> are not checked when
  the function is called, so a parameter of the wrong type raises no \<open>TypeError\<close>:
  the request \<open>{"tool": "search", "params": {"query": 123}}\<close> is answered with
  status 200, and the payload with \<open>query\<close> 123 is posted.
\<close>

theorem wrong_type_is_forwarded:
  "handle_tool_call env_key net_results req_query_int =
     (Inr (200, Dict [(''results'', Arr [])]),
      [Call ''tavily_search'', Call ''_tavily_base_search'',
       Post ''https://api.tavily.com/search''
         [(''query'', JInt 123), (''search_depth'', JStr ''basic''), (''max_results'', JInt 5),
          (''api_key'', JStr ''tvly-secret'')]])"
  by (simp add: model_defs sample_defs)

subsection \<open>Unknown tools\<close>

text \<open>
  A \<open>tool\<close> that is a list is no key of the registry, but the membership test
  raises \<open>TypeError\<close> (unhashable) before any response is built: the claim C6, read
  for every value of \<open>tool\<close>, fails.
\<close>

theorem unhashable_tool_counterexample:
  "handle_tool_call env_key net_results req_tool_list =
     (Inl (TypeError (''unhashable type: '' @ quoted ''list'')), [])"
  by (simp add: model_defs sample_defs)

text \<open>
  C6, amended. For every request whose body is a JSON object and whose \<open>tool\<close> is
  hashable (a string, a number, a boolean, null, or absent) and no key of the registry,
  the response is 404 with exactly the body \<open>{"error": "Tool '<name>' not found."}\<close>,
  and the trace is empty: no tool function and no client was entered.
\<close>

theorem unknown_tool_not_found:
  assumes "dict_get d ''tool'' JNull = Atom a" and "a \<notin> AStr ` fst ` set tools"
  shows "handle_tool_call env net (Body (Dict d)) =
           (Inr (404, Dict [(''error'', JStr (''Tool '' @ quoted (py_str a) @ '' not found.''))]), [])"
proof -
  from assms(2) have "tools_entry a = None" by (simp add: tools_entry_None_iff)
  with handle_object [OF assms(1)] show ?thesis by (simp add: dispatch_unregistered)
qed

theorem unknown_tool_not_found_witness:
  "dict_get [(''tool'', JStr ''unknown_tool'')] ''tool'' JNull = Atom (AStr ''unknown_tool'')
   \<and> AStr ''unknown_tool'' \<notin> AStr ` fst ` set tools
   \<and> handle_tool_call env_key net_results req_unknown_tool =
       (Inr (404, Dict [(''error'', JStr ''Tool 'unknown_tool' not found.'')]), [])"
proof -
  have a: "dict_get [(''tool'', JStr ''unknown_tool'')] ''tool'' JNull = Atom (AStr ''unknown_tool'')"
    by (simp add: dict_get_def)
  have b: "AStr ''unknown_tool'' \<notin> AStr ` fst ` set tools"
    by (simp add: tools_def)
  from unknown_tool_not_found [OF a b, of env_key net_results] a b
  show ?thesis by (simp add: req_unknown_tool_def quoted_def)
qed

text \<open>
  C10. A body that is a JSON object without the field \<open>tool\<close> takes the
  unknown-tool branch: \<open>data.get('tool')\<close> is \<open>None\<close>, which is no key of the
  registry, and the response is 404 with the body
  \<open>{"error": "Tool 'None' not found."}\<close>.
\<close>

theorem missing_tool_field:
  assumes "map_of d ''tool'' = None"
  shows "handle_tool_call env net (Body (Dict d)) =
           (Inr (404, Dict [(''error'', JStr ''Tool 'None' not found.'')]), [])"
proof -
  from assms have "dict_get d ''tool'' JNull = Atom ANull" by (simp add: dict_get_def)
  from handle_object [OF this] have
    "handle_tool_call env net (Body (Dict d)) = dispatch env net ANull (dict_get d ''params'' (Dict []))" .
  moreover have "tools_entry ANull = None" by (simp add: tools_entry_def)
  ultimately show ?thesis by (simp add: dispatch_unregistered quoted_def)
qed

theorem missing_tool_field_witness:
  "map_of [(''params'', Dict [(''query'', JStr ''hello'')])] ''tool'' = None
   \<and> handle_tool_call env_key net_results req_no_tool =
       (Inr (404, Dict [(''error'', JStr ''Tool 'None' not found.'')]), [])"
  using missing_tool_field [of "[(''params'', Dict [(''query'', JStr ''hello'')])]" env_key net_results]
  by (simp add: req_no_tool_def)

subsection \<open>Exceptions that leave the handler\<close>


text \<open>
  The decoding of the response is a second way out: a remote API that answers 200 with
  an integer of 5000 digits makes \<open>response.json()\<close> raise \<open>ValueError\<close>, which
  neither \<open>except\<close> clause catches, for a well-formed request.
\<close>

lemma uncaught_decoding_error:
  "handle_tool_call env_key net_huge_int req_search =
     (Inl (ValueError
        ''Exceeds the limit (4300 digits) for integer string conversion: value has 5000 digits; use sys.set_int_max_str_digits() to increase the limit''),
      [Call ''tavily_search'', Call ''_tavily_base_search'',
       Post ''https://api.tavily.com/search''
         [(''query'', JStr ''hello''), (''search_depth'', JStr ''basic''), (''max_results'', JInt 5),
          (''api_key'', JStr ''tvly-secret'')]])"
  by (simp add: model_defs sample_defs)








subsection \<open>The defensive 500 branch\<close>

lemma handler_never_500: "fst (handle_tool_call env net req) \<noteq> Inr (500, body)"
  using handle_cases [of env net req]
proof
  assume "\<exists>e. handle_tool_call env net req = (Inl e, [])"
  then show ?thesis by auto
next
  assume "\<exists>d a. req = Body (Dict d) \<and> dict_get d ''tool'' JNull = Atom a \<and>
         handle_tool_call env net req = dispatch env net a (dict_get d ''params'' (Dict []))"
  then obtain d a where "handle_tool_call env net req = dispatch env net a (dict_get d ''params'' (Dict []))"
    by blast
  with dispatch_cases [of a env net "dict_get d ''params'' (Dict [])"]
    try_call_status [of a _ 500 body]
  show ?thesis by auto
qed

text \<open>
  C8. Every key of the registry names, under \<open>function\<close>, a global of the module
  that is one of the four tool functions, so the lookup in \<open>globals()\<close> succeeds; and
  the handler never returns the response
  \<open>{"error": "Function implementation for '<name>' not found."}\<close> with status 500,
  for any request, environment and remote behaviour.
\<close>

theorem registered_tools_resolve:
  "(\<forall>name \<in> fst ` set tools. \<exists>entry function_name b.
       map_of tools name = Some entry \<and> map_of entry ''function'' = Some function_name
       \<and> map_of globals function_name = Some (Builder b))
   \<and> fst (handle_tool_call env net req) \<noteq> Inr (500, body)"
proof
  show "\<forall>name \<in> fst ` set tools. \<exists>entry function_name b.
       map_of tools name = Some entry \<and> map_of entry ''function'' = Some function_name
       \<and> map_of globals function_name = Some (Builder b)"
    by (simp add: tools_def globals_def)
  show "fst (handle_tool_call env net req) \<noteq> Inr (500, body)" by (rule handler_never_500)
qed

theorem registered_tools_resolve_witness:
  "''deep_search'' \<in> fst ` set tools
   \<and> (\<exists>entry. map_of tools ''deep_search'' = Some entry
        \<and> map_of entry ''function'' = Some ''tavily_deep_search'')
   \<and> map_of globals ''tavily_deep_search'' = Some (Builder Tavily_deep_search)
   \<and> fst (handle_tool_call env_key net_results req_search) \<noteq>
       Inr (500, Dict [(''error'', JStr ''Function implementation for 'search' not found.'')])"
  using registered_tools_resolve [of env_key net_results req_search
      "Dict [(''error'', JStr ''Function implementation for 'search' not found.'')]"]
  by (simp add: tools_def globals_def)

end
